theory Spec2Isabelle
  imports Main "HOL-Library.AList"
begin

section \<open>Projector element composition of \<open>openslides/core/views.py\<close>\<close>

text \<open>
  The development embeds the element operations of \<open>ProjectorViewSet\<close>
  (\<open>destroy\<close>, \<open>prune\<close>, \<open>update_elements\<close>, \<open>deactivate_elements\<close>, \<open>clear\<close>,
  \<open>project\<close>) as functions on an explicit database state. A raised exception is a
  value \<open>Inl e\<close>, returned together with the database as it is at the moment of the
  raise, so that "nothing was persisted" is a statement about the returned database.

  Two things the views call are not in \<open>views.py\<close> and are parameters of the model:
  the validation of the projector serializer (\<open>is_valid\<close>, a predicate on the element
  mapping) and the outcomes of \<open>uuid.uuid4().hex\<close> (\<open>uuid4\<close>, the key returned by the
  n-th call). The permission check in front of every view is not modelled: the
  functions describe a request that has passed it.
\<close>

subsection \<open>Request data: parsed JSON\<close>

text \<open>
  \<open>request.data\<close> is the result of parsing a JSON body. A Python \<open>dict\<close> is an
  association list in insertion order, looked up with \<open>map_of\<close>. \<open>JFloat m e\<close> stands
  for the finite double \<open>m * 2 ^ e\<close>; the views only ever test a float for truth.
\<close>

datatype json =
    JNull
  | JBool bool
  | JInt int
  | JFloat int int
  | JString string
  | JList "json list"
  | JDict "(string \<times> json) list"

type_synonym element = "(string \<times> json) list"
type_synonym elements = "(string \<times> element) list"

text \<open>Python truth value of a JSON value, as tested by \<open>if value.get("stable")\<close>.\<close>

fun truthy :: "json \<Rightarrow> bool" where
  "truthy JNull = False"
| "truthy (JBool b) = b"
| "truthy (JInt i) = (i \<noteq> 0)"
| "truthy (JFloat m e) = (m \<noteq> 0)"
| "truthy (JString s) = (s \<noteq> [])"
| "truthy (JList xs) = (xs \<noteq> [])"
| "truthy (JDict d) = (d \<noteq> [])"

text \<open>\<open>isinstance(x, int)\<close>: Python's \<open>bool\<close> is a subclass of \<open>int\<close>.\<close>

fun isinstance_int :: "json \<Rightarrow> bool" where
  "isinstance_int (JInt i) = True"
| "isinstance_int (JBool b) = True"
| "isinstance_int _ = False"

fun int_value :: "json \<Rightarrow> int" where
  "int_value (JInt i) = i"
| "int_value (JBool b) = (if b then 1 else 0)"
| "int_value _ = 0"

text \<open>\<open>d.get(k, default)\<close> and \<open>d.get(k)\<close>, whose default is \<open>None\<close>.\<close>

definition py_get_default :: "(string \<times> json) list \<Rightarrow> string \<Rightarrow> json \<Rightarrow> json" where
  "py_get_default d k dflt = (case map_of d k of None \<Rightarrow> dflt | Some v \<Rightarrow> v)"

definition py_get :: "(string \<times> json) list \<Rightarrow> string \<Rightarrow> json" where
  "py_get d k = py_get_default d k JNull"

text \<open>The test \<open>value.get("stable")\<close> of \<open>prune\<close> and \<open>clear\<close>.\<close>

definition get_stable :: "element \<Rightarrow> bool" where
  "get_stable v = truthy (py_get v ''stable'')"

text \<open>
  Iterating a value in a \<open>for\<close> loop: a list gives its items, a string its
  characters, a dict its keys; anything else raises \<open>TypeError\<close> (\<open>None\<close> here).
\<close>

fun py_iter :: "json \<Rightarrow> json list option" where
  "py_iter (JList xs) = Some xs"
| "py_iter (JString s) = Some (map (\<lambda>c. JString [c]) s)"
| "py_iter (JDict d) = Some (map (\<lambda>kv. JString (fst kv)) d)"
| "py_iter _ = None"

subsection \<open>Python dict assignment and deletion\<close>

text \<open>
  \<open>d[k] = v\<close> overwrites the value of an existing key in place and appends a new
  key at the end; \<open>del d[k]\<close> removes the key.
\<close>

primrec dict_set :: "'k \<Rightarrow> 'v \<Rightarrow> ('k \<times> 'v) list \<Rightarrow> ('k \<times> 'v) list" where
  "dict_set k v [] = [(k, v)]"
| "dict_set k v (p # ps) = (if fst p = k then (k, v) # ps else p # dict_set k v ps)"

definition dict_del :: "'k \<Rightarrow> ('k \<times> 'v) list \<Rightarrow> ('k \<times> 'v) list" where
  "dict_del k d = filter (\<lambda>p. fst p \<noteq> k) d"

subsection \<open>Errors\<close>

text \<open>
  The \<open>detail\<close> of a \<open>ValidationError\<close>. The two messages built with an f-string
  carry the formatted value instead of its text. \<open>Serializer_errors\<close> is what
  \<open>serializer.is_valid(raise_exception=True)\<close> raises.
\<close>

datatype detail =
    Msg string
  | Id_has_to_be_int json
  | Projector_does_not_exist json
  | Serializer_errors

datatype error = ValidationError detail | Http404 | DoesNotExist | TypeError

subsection \<open>Database state\<close>

text \<open>
  A \<open>Projector\<close> row, the table of projectors by primary key, the table of
  \<open>ProjectionDefault\<close> rows (primary key and \<open>projector_id\<close>), the config value
  \<open>projector_broadcast\<close>, and the log of autoupdate notifications that saving a
  projector sends (the primary keys, in order).
\<close>

record projector =
  config :: elements
  scale :: int
  scroll :: int
  width :: int
  height :: int
  blank :: bool

record database =
  projectors :: "(int \<times> projector) list"
  projectiondefaults :: "(int \<times> int) list"
  projector_broadcast :: int
  autoupdate :: "int list"

text \<open>\<open>self.get_object()\<close> and \<open>Projector.objects.get(pk=...)\<close>.\<close>

definition get_object :: "database \<Rightarrow> int \<Rightarrow> projector option" where
  "get_object db pk = map_of (projectors db) pk"

text \<open>\<open>projector.save()\<close>: writes the row and informs the autoupdate system.\<close>

definition save :: "int \<Rightarrow> projector \<Rightarrow> database \<Rightarrow> database" where
  "save pk p db =
     db\<lparr>projectors := dict_set pk p (projectors db), autoupdate := autoupdate db @ [pk]\<rparr>"

subsection \<open>\<open>clear\<close> and \<open>prune\<close>\<close>

text \<open>
  The loop \<open>for key, value in projector.config.items(): if value.get("stable"):
  projector_config[key] = value\<close>, run on the accumulator \<open>projector_config\<close>.
\<close>

fun keep_stable :: "elements \<Rightarrow> elements \<Rightarrow> elements" where
  "keep_stable [] projector_config = projector_config"
| "keep_stable ((key, value) # items) projector_config =
     keep_stable items
       (if get_stable value then dict_set key value projector_config else projector_config)"

text \<open>
  The loop \<open>for element in elements: projector_config[uuid.uuid4().hex] = element\<close>.
  The outcomes of the successive calls of \<open>uuid.uuid4().hex\<close> are the values
  \<open>uuid4 n\<close>, \<open>uuid4 (n + 1)\<close>, ... of a function given to the model.
\<close>

fun add_elements :: "(nat \<Rightarrow> string) \<Rightarrow> nat \<Rightarrow> element list \<Rightarrow> elements \<Rightarrow> elements" where
  "add_elements uuid4 n [] projector_config = projector_config"
| "add_elements uuid4 n (element # rest) projector_config =
     add_elements uuid4 (Suc n) rest (dict_set (uuid4 n) element projector_config)"

text \<open>
  \<open>clear(self, projector)\<close>. The serializer class is not part of \<open>views.py\<close>; its
  validation is the parameter \<open>is_valid\<close>. The result is the saved mapping.
\<close>

definition clear ::
  "(elements \<Rightarrow> bool) \<Rightarrow> int \<times> projector \<Rightarrow> database \<Rightarrow> (error + elements) \<times> database" where
  "clear is_valid inst db =
     (let projector_config = keep_stable (config (snd inst)) []
      in if \<not> is_valid projector_config then (Inl (ValidationError Serializer_errors), db)
         else (Inr projector_config,
               save (fst inst) ((snd inst)\<lparr>config := projector_config\<rparr>) db))"

text \<open>
  \<open>prune(self, projector, elements)\<close>: after the serializer has saved the new
  mapping, the scroll level is reset and the row saved once more.
\<close>

definition prune ::
  "(elements \<Rightarrow> bool) \<Rightarrow> (nat \<Rightarrow> string) \<Rightarrow> int \<times> projector \<Rightarrow> element list \<Rightarrow> database
     \<Rightarrow> (error + elements) \<times> database" where
  "prune is_valid uuid4 inst els db =
     (let projector_config = add_elements uuid4 0 els (keep_stable (config (snd inst)) [])
      in if \<not> is_valid projector_config then (Inl (ValidationError Serializer_errors), db)
         else
           (let p1 = (snd inst)\<lparr>config := projector_config\<rparr>;
                db1 = save (fst inst) p1 db
            in if scroll p1 \<noteq> 0
               then (Inr projector_config, save (fst inst) (p1\<lparr>scroll := 0\<rparr>) db1)
               else (Inr projector_config, db1)))"

text \<open>The endpoint \<open>clear_elements\<close>.\<close>

definition clear_elements ::
  "(elements \<Rightarrow> bool) \<Rightarrow> int \<Rightarrow> database \<Rightarrow> (error + elements) \<times> database" where
  "clear_elements is_valid pk db =
     (case get_object db pk of
        None \<Rightarrow> (Inl Http404, db)
      | Some p \<Rightarrow> clear is_valid (pk, p) db)"

subsection \<open>\<open>project\<close>\<close>

text \<open>The loop \<open>for id in clear_projector_ids: if not isinstance(id, int): raise\<close>.\<close>

fun check_clear_ids :: "json list \<Rightarrow> error + unit" where
  "check_clear_ids [] = Inr ()"
| "check_clear_ids (i # rest) =
     (if \<not> isinstance_int i then Inl (ValidationError (Id_has_to_be_int i))
      else check_clear_ids rest)"

text \<open>
  The checks made when \<open>prune\<close> is given, in the order of the source: \<open>prune\<close> is a
  dict, its \<open>id\<close> is an int, a projector with that primary key exists, the element is
  a dict, the element has a name. The result is the target's primary key and the
  element.
\<close>

definition validate_prune :: "database \<Rightarrow> json \<Rightarrow> error + int \<times> element" where
  "validate_prune db prune_data =
     (case prune_data of
        JDict pr \<Rightarrow>
          (let prune_projector_id = py_get pr ''id''
           in if \<not> isinstance_int prune_projector_id
              then Inl (ValidationError (Msg ''The prune projector id has to be int.''))
              else if get_object db (int_value prune_projector_id) = None
              then Inl (ValidationError (Projector_does_not_exist prune_projector_id))
              else
                (case py_get_default pr ''element'' (JDict []) of
                   JDict prune_element \<Rightarrow>
                     if py_get prune_element ''name'' = JNull
                     then Inl (ValidationError (Msg ''Invalid projector element. Name is missing.''))
                     else Inr (int_value prune_projector_id, prune_element)
                 | _ \<Rightarrow> Inl (ValidationError (Msg ''Prune element has to be a dict or not given.''))))
      | _ \<Rightarrow> Inl (ValidationError (Msg ''Prune has to be an object.'')))"

text \<open>First step: \<open>for projector in Projector.objects.filter(pk__in=...): self.clear(projector)\<close>.\<close>

fun clear_all ::
  "(elements \<Rightarrow> bool) \<Rightarrow> (int \<times> projector) list \<Rightarrow> database \<Rightarrow> (error + unit) \<times> database" where
  "clear_all is_valid [] db = (Inr (), db)"
| "clear_all is_valid (inst # rest) db =
     (case clear is_valid inst db of
        (Inl e, db1) \<Rightarrow> (Inl e, db1)
      | (Inr r, db1) \<Rightarrow> clear_all is_valid rest db1)"

definition project ::
  "(elements \<Rightarrow> bool) \<Rightarrow> (nat \<Rightarrow> string) \<Rightarrow> json \<Rightarrow> database \<Rightarrow> (error + unit) \<times> database" where
  "project is_valid uuid4 data db =
     (case data of
        JDict d \<Rightarrow>
          (case py_iter (py_get_default d ''clear_ids'' (JList [])) of
             None \<Rightarrow> (Inl TypeError, db)
           | Some clear_projector_ids \<Rightarrow>
               (case check_clear_ids clear_projector_ids of
                  Inl e \<Rightarrow> (Inl e, db)
                | Inr u \<Rightarrow>
                    (let prune_data = py_get d ''prune''
                     in case (if prune_data \<noteq> JNull
                              then map_sum id Some (validate_prune db prune_data)
                              else Inr None) of
                          Inl e \<Rightarrow> (Inl e, db)
                        | Inr target \<Rightarrow>
                            (case clear_all is_valid
                                    (filter (\<lambda>row. fst row \<in> int_value ` set clear_projector_ids)
                                       (projectors db)) db of
                               (Inl e, db1) \<Rightarrow> (Inl e, db1)
                             | (Inr u1, db1) \<Rightarrow>
                                 (case target of
                                    None \<Rightarrow> (Inr (), db1)
                                  | Some (prune_projector_id, prune_element) \<Rightarrow>
                                      (case get_object db1 prune_projector_id of
                                         None \<Rightarrow> (Inl DoesNotExist, db1)
                                       | Some prune_projector \<Rightarrow>
                                           (case prune is_valid uuid4
                                                   (prune_projector_id, prune_projector)
                                                   [prune_element] db1 of
                                              (Inl e, db2) \<Rightarrow> (Inl e, db2)
                                            | (Inr r, db2) \<Rightarrow> (Inr (), db2))))))))
      | _ \<Rightarrow> (Inl (ValidationError (Msg ''The data has to be a dict.'')), db))"

subsection \<open>\<open>uuid.UUID(hex=...)\<close>\<close>

text \<open>
  The standard library's \<open>uuid.UUID(hex=s)\<close> removes \<open>urn:\<close> and \<open>uuid:\<close>, strips
  braces from both ends, removes hyphens, requires 32 remaining characters and
  converts them with \<open>int(hex, 16)\<close>; \<open>ValueError\<close> otherwise. A string is a list of
  code points below 256.
\<close>

text \<open>\<open>s.replace(pat, '')\<close>: every occurrence of \<open>pat\<close>, from the left, is dropped.\<close>

fun py_remove :: "string \<Rightarrow> string \<Rightarrow> string" where
  "py_remove pat [] = []"
| "py_remove pat (c # cs) =
     (if pat \<noteq> [] \<and> take (length pat) (c # cs) = pat
      then py_remove pat (drop (length pat) (c # cs))
      else c # py_remove pat cs)"

text \<open>\<open>s.strip(chars)\<close>.\<close>

definition py_strip :: "string \<Rightarrow> string \<Rightarrow> string" where
  "py_strip chars s =
     rev (dropWhile (\<lambda>c. c \<in> set chars) (rev (dropWhile (\<lambda>c. c \<in> set chars) s)))"

definition is_hex :: "char \<Rightarrow> bool" where
  "is_hex c = (c \<in> set ''0123456789abcdefABCDEF'')"

definition is_space :: "char \<Rightarrow> bool" where
  "is_space c =
     (c \<in> set [CHR 0x09, CHR 0x0A, CHR 0x0B, CHR 0x0C, CHR 0x0D,
                CHR 0x1C, CHR 0x1D, CHR 0x1E, CHR 0x1F, CHR 0x20, CHR 0x85, CHR 0xA0])"

text \<open>
  \<open>int(s, 16)\<close> does not raise: optional white space, an optional sign, an optional
  prefix \<open>0x\<close> (after which one underscore may stand), then hexadecimal digits,
  single underscores allowed between two digits, then optional white space.
  \<open>digits_rest\<close> reads what follows a digit.
\<close>

fun digits_rest :: "string \<Rightarrow> bool" where
  "digits_rest [] = True"
| "digits_rest (c # cs) =
     (if is_hex c then digits_rest cs
      else if c = CHR ''_'' then
        (case cs of [] \<Rightarrow> False | d # ds \<Rightarrow> is_hex d \<and> digits_rest ds)
      else list_all is_space (c # cs))"

definition skip_sign :: "string \<Rightarrow> string" where
  "skip_sign s = (case s of [] \<Rightarrow> [] | c # r \<Rightarrow> if c = CHR ''+'' \<or> c = CHR ''-'' then r else s)"

fun skip_prefix :: "string \<Rightarrow> string" where
  "skip_prefix (c0 # c1 # r) =
     (if c0 = CHR ''0'' \<and> (c1 = CHR ''x'' \<or> c1 = CHR ''X'')
      then (case r of [] \<Rightarrow> [] | u # r' \<Rightarrow> if u = CHR ''_'' then r' else r)
      else c0 # c1 # r)"
| "skip_prefix s = s"

definition int16_ok :: "string \<Rightarrow> bool" where
  "int16_ok s =
     (case skip_prefix (skip_sign (dropWhile is_space s)) of
        [] \<Rightarrow> False
      | d # rest \<Rightarrow> is_hex d \<and> digits_rest rest)"

definition uuid_hex_ok :: "string \<Rightarrow> bool" where
  "uuid_hex_ok s =
     (let h = py_remove ''-'' (py_strip ''{}'' (py_remove ''uuid:'' (py_remove ''urn:'' s)))
      in length h = 32 \<and> int16_ok h)"

text \<open>\<open>str(n)\<close> for an integer.\<close>

fun str_nat :: "nat \<Rightarrow> string" where
  "str_nat n =
     (if n < 10 then [char_of (48 + n)] else str_nat (n div 10) @ [char_of (48 + n mod 10)])"

definition str_int :: "int \<Rightarrow> string" where
  "str_int i = (if i < 0 then CHR ''-'' # str_nat (nat (- i)) else str_nat (nat i))"

text \<open>
  \<open>uuid.UUID(hex=str(item))\<close> does not raise, for an item of the request list. The
  text of a float has at most 24 characters, the text of a list keeps its opening
  bracket and the text of a non-empty dict starts, behind the brace, with the quote
  of its first key: for these the call always raises.
\<close>

fun item_uuid_ok :: "json \<Rightarrow> bool" where
  "item_uuid_ok (JString s) = uuid_hex_ok s"
| "item_uuid_ok (JInt i) = uuid_hex_ok (str_int i)"
| "item_uuid_ok (JBool b) = uuid_hex_ok (if b then ''True'' else ''False'')"
| "item_uuid_ok JNull = uuid_hex_ok ''None''"
| "item_uuid_ok (JFloat m e) = False"
| "item_uuid_ok (JList xs) = False"
| "item_uuid_ok (JDict d) = False"

subsection \<open>\<open>update_elements\<close>\<close>

text \<open>\<open>d.update(other)\<close>: every item of \<open>other\<close> is assigned in \<open>d\<close>.\<close>

fun dict_update :: "('k \<times> 'v) list \<Rightarrow> ('k \<times> 'v) list \<Rightarrow> ('k \<times> 'v) list" where
  "dict_update d [] = d"
| "dict_update d ((k, v) # other) = dict_update (dict_set k v d) other"

text \<open>The first loop: every key is a UUID and every value a dict.\<close>

definition update_error :: error where
  "update_error = ValidationError
     (Msg ''Data must be a dictionary with UUIDs as keys and dictionaries as values.'')"

fun is_dict :: "json \<Rightarrow> bool" where
  "is_dict (JDict d) = True"
| "is_dict _ = False"

fun check_update_data :: "(string \<times> json) list \<Rightarrow> error + unit" where
  "check_update_data [] = Inr ()"
| "check_update_data ((key, value) # rest) =
     (if \<not> uuid_hex_ok key then Inl update_error
      else if \<not> is_dict value then Inl update_error
      else check_update_data rest)"

text \<open>
  The second loop, on the mapping \<open>projector_config\<close> of the loaded instance:
  \<open>if key not in projector_config: raise\<close>, then
  \<open>projector_config[key].update(request.data[key])\<close>.
\<close>

fun update_loop :: "(string \<times> json) list \<Rightarrow> elements \<Rightarrow> error + elements" where
  "update_loop [] projector_config = Inr projector_config"
| "update_loop ((key, value) # rest) projector_config =
     (case map_of projector_config key of
        None \<Rightarrow> Inl (ValidationError (Msg ''Invalid projector element. Wrong UUID.''))
      | Some el \<Rightarrow>
          (case value of
             JDict partial \<Rightarrow>
               update_loop rest (dict_set key (dict_update el partial) projector_config)
           | _ \<Rightarrow> Inl TypeError))"

definition update_elements ::
  "(elements \<Rightarrow> bool) \<Rightarrow> json \<Rightarrow> int \<Rightarrow> database \<Rightarrow> (error + elements) \<times> database" where
  "update_elements is_valid data pk db =
     (case data of
        JDict d \<Rightarrow>
          (case check_update_data d of
             Inl e \<Rightarrow> (Inl e, db)
           | Inr u \<Rightarrow>
               (case get_object db pk of
                  None \<Rightarrow> (Inl Http404, db)
                | Some projector_instance \<Rightarrow>
                    (case update_loop d (config projector_instance) of
                       Inl e \<Rightarrow> (Inl e, db)
                     | Inr projector_config \<Rightarrow>
                         if \<not> is_valid projector_config
                         then (Inl (ValidationError Serializer_errors), db)
                         else (Inr projector_config,
                               save pk (projector_instance\<lparr>config := projector_config\<rparr>) db))))
      | _ \<Rightarrow> (Inl (ValidationError (Msg ''Data must be a dictionary.'')), db))"

subsection \<open>\<open>deactivate_elements\<close>\<close>

definition deactivate_error :: error where
  "deactivate_error = ValidationError (Msg ''Data must be a list of hex UUIDs.'')"

fun check_deactivate_data :: "json list \<Rightarrow> error + unit" where
  "check_deactivate_data [] = Inr ()"
| "check_deactivate_data (item # rest) =
     (if \<not> item_uuid_ok item then Inl deactivate_error else check_deactivate_data rest)"

text \<open>
  \<open>del projector_config[key]\<close> inside \<open>try ... except KeyError\<close>. The keys of the
  mapping are strings, so a key of another hashable type is never found; a list or a
  dict is not hashable.
\<close>

fun del_item :: "json \<Rightarrow> elements \<Rightarrow> error + elements" where
  "del_item (JString key) projector_config =
     (if key \<in> fst ` set projector_config then Inr (dict_del key projector_config)
      else Inl (ValidationError (Msg ''Invalid UUID.'')))"
| "del_item (JList xs) projector_config = Inl TypeError"
| "del_item (JDict d) projector_config = Inl TypeError"
| "del_item other projector_config = Inl (ValidationError (Msg ''Invalid UUID.''))"

fun deactivate_loop :: "json list \<Rightarrow> elements \<Rightarrow> error + elements" where
  "deactivate_loop [] projector_config = Inr projector_config"
| "deactivate_loop (key # rest) projector_config =
     (case del_item key projector_config of
        Inl e \<Rightarrow> Inl e
      | Inr projector_config' \<Rightarrow> deactivate_loop rest projector_config')"

definition deactivate_elements ::
  "(elements \<Rightarrow> bool) \<Rightarrow> json \<Rightarrow> int \<Rightarrow> database \<Rightarrow> (error + elements) \<times> database" where
  "deactivate_elements is_valid data pk db =
     (case data of
        JList items \<Rightarrow>
          (case check_deactivate_data items of
             Inl e \<Rightarrow> (Inl e, db)
           | Inr u \<Rightarrow>
               (case get_object db pk of
                  None \<Rightarrow> (Inl Http404, db)
                | Some projector_instance \<Rightarrow>
                    (case deactivate_loop items (config projector_instance) of
                       Inl e \<Rightarrow> (Inl e, db)
                     | Inr projector_config \<Rightarrow>
                         if \<not> is_valid projector_config
                         then (Inl (ValidationError Serializer_errors), db)
                         else (Inr projector_config,
                               save pk (projector_instance\<lparr>config := projector_config\<rparr>) db))))
      | _ \<Rightarrow> (Inl deactivate_error, db))"

subsection \<open>\<open>destroy\<close>\<close>

text \<open>
  The loop over \<open>ProjectionDefault.objects.all()\<close>: the rows are read when the loop
  starts; a row whose projector is the destroyed one gets \<open>projector_id = 1\<close> and is
  saved to the table.
\<close>

fun reassign_defaults :: "int \<Rightarrow> (int \<times> int) list \<Rightarrow> (int \<times> int) list \<Rightarrow> (int \<times> int) list" where
  "reassign_defaults pk [] table = table"
| "reassign_defaults pk ((pd_id, projector_id) # rows) table =
     reassign_defaults pk rows (if projector_id = pk then dict_set pd_id 1 table else table)"

text \<open>
  Modelled from the spec: the inherited \<open>ModelViewSet.destroy\<close>, which is not part
  of \<open>views.py\<close>. The spec describes it as the generic deletion of the projector; it
  removes the projector's row.
\<close>

definition super_destroy :: "int \<Rightarrow> database \<Rightarrow> database" where
  "super_destroy pk db = db\<lparr>projectors := dict_del pk (projectors db)\<rparr>"

definition destroy :: "int \<Rightarrow> database \<Rightarrow> (error + unit) \<times> database" where
  "destroy pk db =
     (case get_object db pk of
        None \<Rightarrow> (Inl Http404, db)
      | Some projector_instance \<Rightarrow>
          (let db1 = db\<lparr>projectiondefaults :=
                         reassign_defaults pk (projectiondefaults db) (projectiondefaults db)\<rparr>;
               db2 = (if projector_broadcast db1 = pk then db1\<lparr>projector_broadcast := 0\<rparr> else db1)
           in (Inr (), super_destroy pk db2)))"

subsection \<open>Notions used in the statements\<close>

text \<open>
  The body of an \<open>update_elements\<close> request that maps each key to a partial
  element.
\<close>

definition wrap_updates :: "(string \<times> element) list \<Rightarrow> (string \<times> json) list" where
  "wrap_updates updates = map (\<lambda>ku. (fst ku, JDict (snd ku))) updates"

text \<open>
  The mapping in which every element whose key is named in \<open>updates\<close> has the
  partial element merged in.
\<close>

definition merged :: "(string \<times> element) list \<Rightarrow> elements \<Rightarrow> elements" where
  "merged updates cfg =
     map (\<lambda>kv. (fst kv, case map_of updates (fst kv) of
                           None \<Rightarrow> snd kv
                         | Some partial \<Rightarrow> dict_update (snd kv) partial)) cfg"

text \<open>
  The hyphenated form of a 32-digit key, in groups of 8, 4, 4, 4 and 12.
\<close>

definition hyphenated :: "string \<Rightarrow> string" where
  "hyphenated h =
     take 8 h @ ''-'' @ take 4 (drop 8 h) @ ''-'' @ take 4 (drop 12 h) @ ''-''
       @ take 4 (drop 16 h) @ ''-'' @ drop 20 h"

subsection \<open>Example data\<close>

text \<open>
  A serializer that accepts a mapping when every element has a non-null \<open>name\<close>,
  a sequence of generated keys, and a small database: projector 1 shows a stable
  countdown and a slide and is scrolled to level 3; projector 2 is the broadcast
  projector and the target of two projection defaults.
\<close>

definition named_elements :: "elements \<Rightarrow> bool" where
  "named_elements cfg = list_all (\<lambda>kv. py_get (snd kv) ''name'' \<noteq> JNull) cfg"

definition example_uuid4 :: "nat \<Rightarrow> string" where
  "example_uuid4 n = replicate (Suc n) (CHR ''f'')"

definition countdown_element :: element where
  "countdown_element = [(''name'', JString ''core/countdown''), (''stable'', JBool True)]"

definition slide_element :: element where
  "slide_element = [(''name'', JString ''motion/slide''), (''id'', JInt 7)]"

definition example_projector :: projector where
  "example_projector =
     \<lparr>config = [(''aa'', countdown_element), (''bb'', slide_element)],
      scale = 0, scroll = 3, width = 1024, height = 768, blank = False\<rparr>"

definition example_db :: database where
  "example_db =
     \<lparr>projectors = [(1, example_projector), (2, example_projector\<lparr>scroll := 0\<rparr>)],
      projectiondefaults = [(1, 1), (2, 2), (3, 2)],
      projector_broadcast = 2,
      autoupdate = []\<rparr>"

text \<open>
  Requests to \<open>project\<close>: a move to a projector that does not exist; a prune
  whose element has no name and whose target does not exist; a clear of projector 1;
  a move from projector 1 to projector 2.
\<close>

definition request_move_to_missing :: json where
  "request_move_to_missing =
     JDict [(''clear_ids'', JList [JInt 1, JInt 2]),
            (''prune'', JDict [(''id'', JInt 3),
                               (''element'', JDict [(''name'', JString ''motion/slide'')])])]"

definition request_missing_both :: json where
  "request_missing_both =
     JDict [(''clear_ids'', JList [JInt 1]),
            (''prune'', JDict [(''id'', JInt 3), (''element'', JDict [])])]"

definition request_clear_one :: json where
  "request_clear_one = JDict [(''clear_ids'', JList [JInt 1])]"

definition request_move :: json where
  "request_move =
     JDict [(''clear_ids'', JList [JInt 1]),
            (''prune'', JDict [(''id'', JInt 2), (''element'', JDict slide_element)])]"

text \<open>
  A database whose projector has two elements under generated keys, and a key
  \<open>uuid_c\<close> that is not in its mapping.
\<close>

definition uuid_a :: string where
  "uuid_a = ''191c0878cdc04abfbd64f3177a21891a''"

definition uuid_b :: string where
  "uuid_b = ''5f2b6c0e9d3a4c1e8b7a6d5c4e3f2a1b''"

definition uuid_c :: string where
  "uuid_c = ''00000000000000000000000000000001''"

definition uuid_projector :: projector where
  "uuid_projector =
     \<lparr>config = [(uuid_a, [(''name'', JString ''a''), (''x'', JInt 1)]), (uuid_b, countdown_element)],
      scale = 0, scroll = 0, width = 1024, height = 768, blank = False\<rparr>"

definition uuid_db :: database where
  "uuid_db =
     \<lparr>projectors = [(1, uuid_projector)], projectiondefaults = [(1, 1)],
      projector_broadcast = 0, autoupdate = []\<rparr>"

subsection \<open>Facts about the dict operations and the tables\<close>

lemma dict_set_AList: "dict_set k v d = AList.update k v d"
  by (induction d) auto

lemma map_of_dict_set: "map_of (dict_set k v d) = (map_of d)(k \<mapsto> v)"
  by (simp add: dict_set_AList update_conv')

lemma keys_dict_set_fresh: "k \<notin> fst ` set d \<Longrightarrow> dict_set k v d = d @ [(k, v)]"
  by (induction d) auto

lemma keys_dict_set_present: "k \<in> fst ` set d \<Longrightarrow> map fst (dict_set k v d) = map fst d"
  by (induction d) auto

lemma dict_set_map:
  "distinct (map fst d) \<Longrightarrow> k \<in> fst ` set d \<Longrightarrow>
     dict_set k v d = map (\<lambda>kv. (fst kv, if fst kv = k then v else snd kv)) d"
proof (induction d)
  case Nil
  then show ?case by simp
next
  case (Cons a d)
  show ?case
  proof (cases "fst a = k")
    case True
    with Cons.prems have "k \<notin> fst ` set d" by auto
    then have "map (\<lambda>kv. (fst kv, if fst kv = k then v else snd kv)) d = d"
      by (induction d) auto
    with True show ?thesis by simp
  next
    case False
    with Cons show ?thesis by auto
  qed
qed

lemma map_of_dict_update:
  "distinct (map fst u) \<Longrightarrow>
     map_of (dict_update d u) f = (case map_of u f of None \<Rightarrow> map_of d f | Some v \<Rightarrow> Some v)"
proof (induction u arbitrary: d)
  case Nil
  then show ?case by simp
next
  case (Cons a u)
  obtain k v where a: "a = (k, v)" by (cases a)
  from Cons.prems a have "k \<notin> fst ` set u" and d: "distinct (map fst u)" by auto
  then have "map_of u k = None" by (simp add: map_of_eq_None_iff)
  with Cons.IH [OF d, of "dict_set k v d"] show ?case
    by (auto simp: a map_of_dict_set split: option.splits)
qed

lemma map_of_map_keyed:
  "map_of (map (\<lambda>kv. (fst kv, h (fst kv) (snd kv))) cfg) k = map_option (h k) (map_of cfg k)"
  by (induction cfg) auto

lemma get_object_save:
  "get_object (save pk p db) k = (if k = pk then Some p else get_object db k)"
  by (simp add: get_object_def save_def map_of_dict_set)

lemma map_of_filter_fst:
  "map_of (filter (\<lambda>row. fst row \<in> S) xs) k = (if k \<in> S then map_of xs k else None)"
  by (induction xs) auto

subsection \<open>Facts about the examples\<close>

lemmas example_defs =
  example_db_def example_projector_def countdown_element_def slide_element_def
  named_elements_def example_uuid4_def py_get_def py_get_default_def get_object_def
  get_stable_def

lemma uuid_examples_ok: "uuid_hex_ok uuid_a" "uuid_hex_ok uuid_b" "uuid_hex_ok uuid_c"
  by (simp_all add: uuid_a_def uuid_b_def uuid_c_def uuid_hex_ok_def py_strip_def int16_ok_def
      skip_sign_def is_hex_def is_space_def)

lemma uuid_examples_distinct: "uuid_a \<noteq> uuid_b" "uuid_a \<noteq> uuid_c" "uuid_b \<noteq> uuid_c"
  by (simp_all add: uuid_a_def uuid_b_def uuid_c_def)

subsection \<open>Facts about the loops of \<open>clear\<close>, \<open>prune\<close> and \<open>project\<close>\<close>

lemma keep_stable_filter_acc:
  "distinct (map fst acc @ map fst items) \<Longrightarrow>
     keep_stable items acc = acc @ filter (\<lambda>kv. get_stable (snd kv)) items"
proof (induction items arbitrary: acc)
  case Nil
  then show ?case by simp
next
  case (Cons kv items)
  obtain key val where kv: "kv = (key, val)" by (cases kv)
  show ?case
  proof (cases "get_stable val")
    case True
    from Cons.prems kv have fresh: "key \<notin> fst ` set acc" by auto
    from Cons.prems kv have "distinct (map fst (acc @ [(key, val)]) @ map fst items)" by auto
    then have "keep_stable items (acc @ [(key, val)])
        = (acc @ [(key, val)]) @ filter (\<lambda>kv. get_stable (snd kv)) items"
      by (rule Cons.IH)
    with True fresh kv show ?thesis by (simp add: keys_dict_set_fresh)
  next
    case False
    from Cons.prems kv have "distinct (map fst acc @ map fst items)" by auto
    then have "keep_stable items acc = acc @ filter (\<lambda>kv. get_stable (snd kv)) items"
      by (rule Cons.IH)
    with False kv show ?thesis by simp
  qed
qed

lemma keep_stable_filter:
  "distinct (map fst items) \<Longrightarrow> keep_stable items [] = filter (\<lambda>kv. get_stable (snd kv)) items"
  using keep_stable_filter_acc [of "[]" items] by simp

lemma get_stable_bool:
  "map_of el ''stable'' = None \<or> (\<exists>b. map_of el ''stable'' = Some (JBool b)) \<Longrightarrow>
     get_stable el \<longleftrightarrow> map_of el ''stable'' = Some (JBool True)"
  by (auto simp: get_stable_def py_get_def py_get_default_def)

lemma add_elements_fresh:
  "distinct (map uuid4 [n..<n + length els]) \<Longrightarrow>
   uuid4 ` {n..<n + length els} \<inter> fst ` set acc = {} \<Longrightarrow>
   add_elements uuid4 n els acc = acc @ zip (map uuid4 [n..<n + length els]) els"
proof (induction els arbitrary: n acc)
  case Nil
  then show ?case by simp
next
  case (Cons e els)
  have "[n..<n + length (e # els)] = n # [Suc n..<n + length (e # els)]"
    by (rule upt_conv_Cons) simp
  then have up: "[n..<n + length (e # els)] = n # [Suc n..<Suc n + length els]"
    by simp
  have "uuid4 n \<in> uuid4 ` {n..<n + length (e # els)}" by simp
  with Cons.prems(2) have fresh: "uuid4 n \<notin> fst ` set acc" by blast
  have sub: "uuid4 ` {Suc n..<Suc n + length els} \<subseteq> uuid4 ` {n..<n + length (e # els)}"
    by auto
  from Cons.prems(1) have d: "distinct (map uuid4 [Suc n..<Suc n + length els])"
    and notin: "uuid4 n \<notin> uuid4 ` {Suc n..<Suc n + length els}"
    unfolding up by auto
  from Cons.prems(2) sub
  have "uuid4 ` {Suc n..<Suc n + length els} \<inter> fst ` set acc = {}"
    by blast
  with notin
  have "uuid4 ` {Suc n..<Suc n + length els} \<inter> fst ` set (acc @ [(uuid4 n, e)]) = {}"
    by auto
  with d have "add_elements uuid4 (Suc n) els (acc @ [(uuid4 n, e)])
      = (acc @ [(uuid4 n, e)]) @ zip (map uuid4 [Suc n..<Suc n + length els]) els"
    by (rule Cons.IH)
  with fresh show ?case unfolding up by (simp add: keys_dict_set_fresh)
qed

lemma prune_other_rows:
  "k \<noteq> t \<Longrightarrow> get_object (snd (prune is_valid uuid4 (t, tp) els db)) k = get_object db k"
  by (simp add: prune_def Let_def get_object_save)

lemma clear_all_rows:
  assumes "distinct (map fst rows)"
    and "\<forall>row\<in>set rows. is_valid (keep_stable (config (snd row)) [])"
  shows "fst (clear_all is_valid rows db) = Inr ()
    \<and> (\<forall>k. get_object (snd (clear_all is_valid rows db)) k =
          (case map_of rows k of
             None \<Rightarrow> get_object db k
           | Some q \<Rightarrow> Some (q\<lparr>config := keep_stable (config q) []\<rparr>)))"
  using assms
proof (induction rows arbitrary: db)
  case Nil
  then show ?case by simp
next
  case (Cons row rows)
  obtain k0 q0 where row: "row = (k0, q0)" by (cases row)
  let ?db1 = "save k0 (q0\<lparr>config := keep_stable (config q0) []\<rparr>) db"
  from Cons.prems row
  have "clear is_valid (k0, q0) db = (Inr (keep_stable (config q0) []), ?db1)"
    by (simp add: clear_def Let_def)
  then have step: "clear_all is_valid (row # rows) db = clear_all is_valid rows ?db1"
    by (simp add: row)
  from Cons.prems have "distinct (map fst rows)"
    and "\<forall>r\<in>set rows. is_valid (keep_stable (config (snd r)) [])" by auto
  then have IH: "fst (clear_all is_valid rows ?db1) = Inr ()
    \<and> (\<forall>k. get_object (snd (clear_all is_valid rows ?db1)) k =
          (case map_of rows k of
             None \<Rightarrow> get_object ?db1 k
           | Some q \<Rightarrow> Some (q\<lparr>config := keep_stable (config q) []\<rparr>)))"
    by (rule Cons.IH)
  from Cons.prems row have "k0 \<notin> fst ` set rows" by auto
  then have none: "map_of rows k0 = None" by (simp add: map_of_eq_None_iff)
  have look: "map_of (row # rows) k =
      (if k = k0 then Some q0 else map_of rows k)" for k
    by (simp add: row)
  from IH none show ?case
    unfolding step look by (auto simp: get_object_save split: option.splits)
qed

lemma check_clear_ids_find:
  "check_clear_ids ids =
     (case find (\<lambda>i. \<not> isinstance_int i) ids of
        None \<Rightarrow> Inr ()
      | Some bad \<Rightarrow> Inl (ValidationError (Id_has_to_be_int bad)))"
  by (induction ids) auto

lemma check_clear_ids_ok: "\<forall>i\<in>set ids. isinstance_int i \<Longrightarrow> check_clear_ids ids = Inr ()"
  by (induction ids) auto

subsection \<open>Validation order of \<open>project\<close>\<close>

text \<open>
  C1. A \<open>project\<close> request whose \<open>prune\<close> names, by an int \<open>id\<close>, a projector that does
  not exist fails with a \<open>ValidationError\<close> and returns the database unchanged: no
  projector of \<open>clear_ids\<close> has been cleared. The error is the one about the first
  non-int clear id if there is one, and the one about the missing projector otherwise.
\<close>

theorem project_missing_target_aborts:
  assumes "py_iter (py_get_default d ''clear_ids'' (JList [])) = Some ids"
    and "py_get d ''prune'' = JDict pr"
    and "isinstance_int (py_get pr ''id'')"
    and "get_object db (int_value (py_get pr ''id'')) = None"
  shows "project is_valid uuid4 (JDict d) db =
     (Inl (ValidationError
        (case find (\<lambda>i. \<not> isinstance_int i) ids of
           None \<Rightarrow> Projector_does_not_exist (py_get pr ''id'')
         | Some bad \<Rightarrow> Id_has_to_be_int bad)), db)"
proof (cases "find (\<lambda>i. \<not> isinstance_int i) ids")
  case None
  then have "check_clear_ids ids = Inr ()" by (simp add: check_clear_ids_find)
  moreover from assms(3,4)
  have "validate_prune db (JDict pr)
      = Inl (ValidationError (Projector_does_not_exist (py_get pr ''id'')))"
    by (simp add: validate_prune_def Let_def)
  ultimately show ?thesis using assms(1,2) None by (simp add: project_def Let_def)
next
  case (Some bad)
  then have "check_clear_ids ids = Inl (ValidationError (Id_has_to_be_int bad))"
    by (simp add: check_clear_ids_find)
  then show ?thesis using assms(1) Some by (simp add: project_def)
qed

theorem project_missing_target_aborts_witness:
  "get_object example_db 3 = None
   \<and> project named_elements example_uuid4 request_move_to_missing example_db
     = (Inl (ValidationError (Projector_does_not_exist (JInt 3))), example_db)"
proof -
  let ?pr = "[(''id'', JInt 3), (''element'', JDict [(''name'', JString ''motion/slide'')])]"
  let ?d = "[(''clear_ids'', JList [JInt 1, JInt 2]), (''prune'', JDict ?pr)]"
  have h1: "py_iter (py_get_default ?d ''clear_ids'' (JList [])) = Some [JInt 1, JInt 2]"
    by (simp add: py_get_default_def)
  have h2: "py_get ?d ''prune'' = JDict ?pr"
    by (simp add: py_get_def py_get_default_def)
  have h3: "isinstance_int (py_get ?pr ''id'')"
    by (simp add: py_get_def py_get_default_def)
  have h4: "get_object example_db (int_value (py_get ?pr ''id'')) = None"
    by (simp add: example_defs)
  from project_missing_target_aborts [OF h1 h2 h3 h4, of named_elements example_uuid4] h4
  show ?thesis
    by (simp add: request_move_to_missing_def py_get_def py_get_default_def)
qed

text \<open>
  C2, as stated, fails: for a request whose prune element has no name and whose
  prune target does not exist, the error is the one about the missing projector,
  not the one about the missing name.
\<close>

theorem project_name_before_existence_counterexample:
  "get_object example_db 3 = None
   \<and> py_get [] ''name'' = JNull
   \<and> project named_elements example_uuid4 request_missing_both example_db
     = (Inl (ValidationError (Projector_does_not_exist (JInt 3))), example_db)
   \<and> fst (project named_elements example_uuid4 request_missing_both example_db)
     \<noteq> Inl (ValidationError (Msg ''Invalid projector element. Name is missing.''))"
  by (simp add: request_missing_both_def project_def validate_prune_def Let_def example_defs)

text \<open>
  C2, amended. The existence of the prune target is checked before the name of the
  prune element: when the element has no non-null name, the request fails, before
  any clearing, with the error about the missing projector if the target does not
  exist, and with the error about the missing name only if the target exists.
\<close>

theorem project_existence_before_name:
  assumes "py_get_default d ''clear_ids'' (JList []) = JList ids"
    and "\<forall>i\<in>set ids. isinstance_int i"
    and "py_get d ''prune'' = JDict pr"
    and "isinstance_int (py_get pr ''id'')"
    and "py_get_default pr ''element'' (JDict []) = JDict el"
    and "py_get el ''name'' = JNull"
  shows "project is_valid uuid4 (JDict d) db =
     (Inl (ValidationError
        (if get_object db (int_value (py_get pr ''id'')) = None
         then Projector_does_not_exist (py_get pr ''id'')
         else Msg ''Invalid projector element. Name is missing.'')), db)"
proof -
  from assms(2) have "check_clear_ids ids = Inr ()" by (rule check_clear_ids_ok)
  moreover from assms(4,5,6)
  have "validate_prune db (JDict pr) =
      Inl (ValidationError
        (if get_object db (int_value (py_get pr ''id'')) = None
         then Projector_does_not_exist (py_get pr ''id'')
         else Msg ''Invalid projector element. Name is missing.''))"
    by (simp add: validate_prune_def Let_def)
  ultimately show ?thesis using assms(1,3) by (simp add: project_def Let_def)
qed

theorem project_existence_before_name_witness:
  "project named_elements example_uuid4 request_missing_both example_db
     = (Inl (ValidationError (Projector_does_not_exist (JInt 3))), example_db)
   \<and> project named_elements example_uuid4
       (JDict [(''prune'', JDict [(''id'', JInt 2), (''element'', JDict [(''name'', JNull)])])])
       example_db
     = (Inl (ValidationError (Msg ''Invalid projector element. Name is missing.'')), example_db)"
proof -
  let ?pr = "[(''id'', JInt 3), (''element'', JDict [])]"
  let ?d = "[(''clear_ids'', JList [JInt 1]), (''prune'', JDict ?pr)]"
  let ?pr2 = "[(''id'', JInt 2), (''element'', JDict [(''name'', JNull)])]"
  let ?d2 = "[(''prune'', JDict ?pr2)]"
  have a1: "py_get_default ?d ''clear_ids'' (JList []) = JList [JInt 1]"
    and a2: "\<forall>i\<in>set [JInt 1]. isinstance_int i"
    and a3: "py_get ?d ''prune'' = JDict ?pr"
    and a4: "isinstance_int (py_get ?pr ''id'')"
    and a5: "py_get_default ?pr ''element'' (JDict []) = JDict []"
    and a6: "py_get [] ''name'' = JNull"
    by (simp_all add: py_get_def py_get_default_def)
  have b1: "py_get_default ?d2 ''clear_ids'' (JList []) = JList []"
    and b2: "\<forall>i\<in>set []. isinstance_int i"
    and b3: "py_get ?d2 ''prune'' = JDict ?pr2"
    and b4: "isinstance_int (py_get ?pr2 ''id'')"
    and b5: "py_get_default ?pr2 ''element'' (JDict []) = JDict [(''name'', JNull)]"
    and b6: "py_get [(''name'', JNull)] ''name'' = JNull"
    by (simp_all add: py_get_def py_get_default_def)
  from project_existence_before_name [OF a1 a2 a3 a4 a5 a6, of named_elements example_uuid4 example_db]
    project_existence_before_name [OF b1 b2 b3 b4 b5 b6, of named_elements example_uuid4 example_db]
  show ?thesis
    by (simp add: request_missing_both_def example_defs)
qed

subsection \<open>Clearing leaves the scroll level\<close>

text \<open>
  C3, as stated, fails: projector 1 of the example is scrolled to level 3 and is
  still at level 3 after \<open>clear_elements\<close>, and after \<open>project\<close> with
  \<open>clear_ids = [1]\<close>.
\<close>

theorem clear_resets_scroll_counterexample:
  "map_option scroll (get_object example_db 1) = Some 3
   \<and> fst (clear_elements named_elements 1 example_db) = Inr [(''aa'', countdown_element)]
   \<and> map_option scroll (get_object (snd (clear_elements named_elements 1 example_db)) 1) = Some 3
   \<and> fst (project named_elements example_uuid4 request_clear_one example_db) = Inr ()
   \<and> map_option scroll
         (get_object (snd (project named_elements example_uuid4 request_clear_one example_db)) 1)
       = Some 3"
  by (simp add: request_clear_one_def project_def clear_elements_def clear_def save_def Let_def
      example_defs)

text \<open>
  C3, amended. Clearing keeps exactly the stable entries of the element mapping and
  changes no other field of the projector, so the scroll level stays what it was:
  through the endpoint \<open>clear_elements\<close>, and through the first step of \<open>project\<close>
  for every projector of \<open>clear_ids\<close> that is not also the target of the request's
  \<open>prune\<close>.
\<close>

theorem clear_keeps_scroll:
  assumes "get_object db pk = Some p"
    and "distinct (map fst (config p))"
    and "is_valid (filter (\<lambda>kv. get_stable (snd kv)) (config p))"
  shows "get_object (snd (clear_elements is_valid pk db)) pk
       = Some (p\<lparr>config := filter (\<lambda>kv. get_stable (snd kv)) (config p)\<rparr>)
     \<and> (distinct (map fst (projectors db))
          \<and> (\<forall>row\<in>set (projectors db). is_valid (keep_stable (config (snd row)) []))
          \<and> py_get_default d ''clear_ids'' (JList []) = JList ids
          \<and> (\<forall>i\<in>set ids. isinstance_int i)
          \<and> pk \<in> int_value ` set ids
          \<and> (py_get d ''prune'' \<noteq> JNull \<longrightarrow>
               (\<exists>t e. validate_prune db (py_get d ''prune'') = Inr (t, e) \<and> t \<noteq> pk)) \<longrightarrow>
        get_object (snd (project is_valid uuid4 (JDict d) db)) pk
            = Some (p\<lparr>config := filter (\<lambda>kv. get_stable (snd kv)) (config p)\<rparr>))"
proof (intro conjI impI)
  have ks: "keep_stable (config p) [] = filter (\<lambda>kv. get_stable (snd kv)) (config p)"
    using assms(2) by (rule keep_stable_filter)
  show "get_object (snd (clear_elements is_valid pk db)) pk
       = Some (p\<lparr>config := filter (\<lambda>kv. get_stable (snd kv)) (config p)\<rparr>)"
    using assms(1,3) by (simp add: clear_elements_def clear_def Let_def ks get_object_save)
  assume h: "distinct (map fst (projectors db))
          \<and> (\<forall>row\<in>set (projectors db). is_valid (keep_stable (config (snd row)) []))
          \<and> py_get_default d ''clear_ids'' (JList []) = JList ids
          \<and> (\<forall>i\<in>set ids. isinstance_int i)
          \<and> pk \<in> int_value ` set ids
          \<and> (py_get d ''prune'' \<noteq> JNull \<longrightarrow>
               (\<exists>t e. validate_prune db (py_get d ''prune'') = Inr (t, e) \<and> t \<noteq> pk))"
  let ?rows = "filter (\<lambda>row. fst row \<in> int_value ` set ids) (projectors db)"
  from h have "distinct (map fst ?rows)" by (simp add: distinct_map_filter)
  moreover from h have "\<forall>row\<in>set ?rows. is_valid (keep_stable (config (snd row)) [])"
    by simp
  ultimately have ca: "fst (clear_all is_valid ?rows db) = Inr ()
    \<and> (\<forall>k. get_object (snd (clear_all is_valid ?rows db)) k =
          (case map_of ?rows k of
             None \<Rightarrow> get_object db k
           | Some q \<Rightarrow> Some (q\<lparr>config := keep_stable (config q) []\<rparr>)))"
    by (rule clear_all_rows)
  from h assms(1) have "map_of ?rows pk = Some p"
    by (simp add: map_of_filter_fst get_object_def)
  with ca have row: "get_object (snd (clear_all is_valid ?rows db)) pk
      = Some (p\<lparr>config := filter (\<lambda>kv. get_stable (snd kv)) (config p)\<rparr>)"
    by (simp add: ks)
  from h have ids: "check_clear_ids ids = Inr ()" by (simp add: check_clear_ids_ok)
  obtain r db1 where res: "clear_all is_valid ?rows db = (r, db1)"
    by (cases "clear_all is_valid ?rows db")
  with ca have r: "r = Inr ()" by simp
  from row res have row1: "get_object db1 pk
      = Some (p\<lparr>config := filter (\<lambda>kv. get_stable (snd kv)) (config p)\<rparr>)"
    by simp
  show "get_object (snd (project is_valid uuid4 (JDict d) db)) pk
            = Some (p\<lparr>config := filter (\<lambda>kv. get_stable (snd kv)) (config p)\<rparr>)"
  proof (cases "py_get d ''prune'' = JNull")
    case True
    with h ids res r have "project is_valid uuid4 (JDict d) db = (Inr (), db1)"
      by (simp add: project_def Let_def)
    with row1 show ?thesis by simp
  next
    case False
    with h obtain t e where vp: "validate_prune db (py_get d ''prune'') = Inr (t, e)"
      and t: "t \<noteq> pk" by blast
    from False h ids res r vp
    have proj: "project is_valid uuid4 (JDict d) db =
        (case get_object db1 t of
           None \<Rightarrow> (Inl DoesNotExist, db1)
         | Some tp \<Rightarrow>
             (case prune is_valid uuid4 (t, tp) [e] db1 of
                (Inl e', db2) \<Rightarrow> (Inl e', db2)
              | (Inr r', db2) \<Rightarrow> (Inr (), db2)))"
      by (simp add: project_def Let_def)
    show ?thesis
    proof (cases "get_object db1 t")
      case None
      with proj row1 show ?thesis by simp
    next
      case (Some tp)
      obtain r2 db2 where pr: "prune is_valid uuid4 (t, tp) [e] db1 = (r2, db2)"
        by (cases "prune is_valid uuid4 (t, tp) [e] db1")
      from t have "get_object (snd (prune is_valid uuid4 (t, tp) [e] db1)) pk = get_object db1 pk"
        by (intro prune_other_rows) simp
      with pr row1 have "get_object db2 pk
          = Some (p\<lparr>config := filter (\<lambda>kv. get_stable (snd kv)) (config p)\<rparr>)"
        by simp
      with proj Some pr show ?thesis by (cases r2) simp_all
    qed
  qed
qed

theorem clear_keeps_scroll_witness:
  "get_object example_db 1 = Some example_projector
   \<and> get_object (snd (clear_elements named_elements 1 example_db)) 1
       = Some (example_projector\<lparr>config := [(''aa'', countdown_element)]\<rparr>)
   \<and> scroll (example_projector\<lparr>config := [(''aa'', countdown_element)]\<rparr>) = 3
   \<and> get_object (snd (project named_elements example_uuid4 request_move example_db)) 1
       = Some (example_projector\<lparr>config := [(''aa'', countdown_element)]\<rparr>)"
proof -
  let ?d = "[(''clear_ids'', JList [JInt 1]),
             (''prune'', JDict [(''id'', JInt 2), (''element'', JDict slide_element)])]"
  have stable: "filter (\<lambda>kv. get_stable (snd kv)) (config example_projector)
      = [(''aa'', countdown_element)]"
    by (simp add: example_defs)
  have h1: "get_object example_db 1 = Some example_projector"
    by (simp add: example_db_def get_object_def)
  have h2: "distinct (map fst (config example_projector))"
    by (simp add: example_projector_def)
  have h3: "named_elements (filter (\<lambda>kv. get_stable (snd kv)) (config example_projector))"
    unfolding stable by (simp add: example_defs)
  have vp: "validate_prune example_db (py_get ?d ''prune'') = Inr (2, slide_element)"
    by (simp add: validate_prune_def Let_def example_defs)
  have h4: "distinct (map fst (projectors example_db))
      \<and> (\<forall>row\<in>set (projectors example_db). named_elements (keep_stable (config (snd row)) []))
      \<and> py_get_default ?d ''clear_ids'' (JList []) = JList [JInt 1]
      \<and> (\<forall>i\<in>set [JInt 1]. isinstance_int i)
      \<and> 1 \<in> int_value ` set [JInt 1]"
    by (simp add: example_defs)
  have h5: "py_get ?d ''prune'' \<noteq> JNull \<longrightarrow>
      (\<exists>t e. validate_prune example_db (py_get ?d ''prune'') = Inr (t, e) \<and> t \<noteq> 1)"
    unfolding vp by simp
  from clear_keeps_scroll [where is_valid = named_elements and db = example_db and pk = 1
      and p = example_projector and d = ?d and ids = "[JInt 1]"
      and ?uuid4.0 = example_uuid4, OF h1 h2 h3, unfolded stable] h4 h5
  have "get_object (snd (clear_elements named_elements 1 example_db)) 1
       = Some (example_projector\<lparr>config := [(''aa'', countdown_element)]\<rparr>)
   \<and> get_object (snd (project named_elements example_uuid4 request_move example_db)) 1
       = Some (example_projector\<lparr>config := [(''aa'', countdown_element)]\<rparr>)"
    unfolding request_move_def by blast
  moreover have "scroll (example_projector\<lparr>config := [(''aa'', countdown_element)]\<rparr>) = 3"
    by (simp add: example_projector_def)
  ultimately show ?thesis using h1 by simp
qed

subsection \<open>Pruning\<close>

text \<open>
  C4. \<open>prune\<close> on a projector whose mapping has distinct keys, with generated keys
  that are distinct and differ from the keys of the stable entries: the mapping given
  to the serializer is the stable entries of the old mapping, under their keys,
  followed by one entry per input element under its generated key; every other old
  entry is gone. An entry is stable when the truth value of its \<open>stable\<close> field is
  true, which for a Boolean field means that it is \<open>true\<close>. When the serializer
  accepts the mapping, it is returned and saved, the projector's scroll is 0
  afterwards, and no other projector changes; when the serializer rejects it,
  nothing is saved.
\<close>

theorem prune_result:
  assumes "distinct (map fst (config p))"
    and "distinct (map uuid4 [0..<length els])"
    and "uuid4 ` {0..<length els} \<inter> fst ` set (filter (\<lambda>kv. get_stable (snd kv)) (config p)) = {}"
  shows "(is_valid (filter (\<lambda>kv. get_stable (snd kv)) (config p) @ zip (map uuid4 [0..<length els]) els) \<longrightarrow>
           fst (prune is_valid uuid4 (pk, p) els db)
             = Inr (filter (\<lambda>kv. get_stable (snd kv)) (config p) @ zip (map uuid4 [0..<length els]) els)
           \<and> get_object (snd (prune is_valid uuid4 (pk, p) els db)) pk
             = Some (p\<lparr>config := filter (\<lambda>kv. get_stable (snd kv)) (config p)
                          @ zip (map uuid4 [0..<length els]) els, scroll := 0\<rparr>)
           \<and> (\<forall>k. k \<noteq> pk \<longrightarrow> get_object (snd (prune is_valid uuid4 (pk, p) els db)) k = get_object db k))
       \<and> (\<not> is_valid (filter (\<lambda>kv. get_stable (snd kv)) (config p) @ zip (map uuid4 [0..<length els]) els) \<longrightarrow>
           prune is_valid uuid4 (pk, p) els db = (Inl (ValidationError Serializer_errors), db))"
proof -
  let ?new = "filter (\<lambda>kv. get_stable (snd kv)) (config p) @ zip (map uuid4 [0..<length els]) els"
  have ks: "keep_stable (config p) [] = filter (\<lambda>kv. get_stable (snd kv)) (config p)"
    using assms(1) by (rule keep_stable_filter)
  have "add_elements uuid4 0 els (keep_stable (config p) []) = ?new"
    unfolding ks using add_elements_fresh [of uuid4 0 els] assms(2,3) by simp
  then show ?thesis
    by (simp add: prune_def Let_def get_object_save)
qed

theorem prune_result_witness:
  "fst (prune named_elements example_uuid4 (1, example_projector) [slide_element] example_db)
     = Inr [(''aa'', countdown_element), (''f'', slide_element)]
   \<and> get_object (snd (prune named_elements example_uuid4 (1, example_projector) [slide_element]
         example_db)) 1
     = Some (example_projector\<lparr>config := [(''aa'', countdown_element), (''f'', slide_element)],
          scroll := 0\<rparr>)"
proof -
  have stable: "filter (\<lambda>kv. get_stable (snd kv)) (config example_projector)
      = [(''aa'', countdown_element)]"
    by (simp add: example_projector_def get_stable_def py_get_def py_get_default_def
        countdown_element_def slide_element_def)
  have h1: "distinct (map fst (config example_projector))"
    by (simp add: example_projector_def)
  have h2: "distinct (map example_uuid4 [0..<length [slide_element]])"
    by simp
  have h3: "example_uuid4 ` {0..<length [slide_element]}
      \<inter> fst ` set (filter (\<lambda>kv. get_stable (snd kv)) (config example_projector)) = {}"
    unfolding stable by (simp add: example_uuid4_def)
  have h4: "named_elements (filter (\<lambda>kv. get_stable (snd kv)) (config example_projector)
      @ zip (map example_uuid4 [0..<length [slide_element]]) [slide_element])"
    unfolding stable
    by (simp add: named_elements_def py_get_def py_get_default_def countdown_element_def
        slide_element_def)
  from prune_result [OF h1 h2 h3, of named_elements 1 example_db] h4
  show ?thesis by (simp add: stable example_uuid4_def)
qed

text \<open>
  C8. For every projector, \<open>prune\<close> with an empty list of elements and \<open>clear\<close> leave
  the same element mapping in the database and return the same result: both give
  the serializer the entries of the old mapping whose \<open>stable\<close> field is true, under
  their keys and in their order, and both save that mapping or both reject it.
\<close>

theorem prune_empty_eq_clear:
  "map_option config (get_object (snd (prune is_valid uuid4 (pk, p) [] db)) pk)
     = map_option config (get_object (snd (clear is_valid (pk, p) db)) pk)
   \<and> fst (prune is_valid uuid4 (pk, p) [] db) = fst (clear is_valid (pk, p) db)
   \<and> (distinct (map fst (config p)) \<and> is_valid (filter (\<lambda>kv. get_stable (snd kv)) (config p)) \<longrightarrow>
        fst (clear is_valid (pk, p) db) = Inr (filter (\<lambda>kv. get_stable (snd kv)) (config p))
        \<and> map_option config (get_object (snd (clear is_valid (pk, p) db)) pk)
            = Some (filter (\<lambda>kv. get_stable (snd kv)) (config p)))"
  by (auto simp: prune_def clear_def Let_def save_def get_object_def map_of_dict_set
      keep_stable_filter)

theorem prune_empty_eq_clear_witness:
  "distinct (map fst (config example_projector))
   \<and> named_elements (filter (\<lambda>kv. get_stable (snd kv)) (config example_projector))
   \<and> fst (prune named_elements example_uuid4 (1, example_projector) [] example_db)
       = Inr [(''aa'', countdown_element)]
   \<and> map_option config
         (get_object (snd (prune named_elements example_uuid4 (1, example_projector) [] example_db)) 1)
       = Some [(''aa'', countdown_element)]
   \<and> map_option config
         (get_object (snd (clear named_elements (1, example_projector) example_db)) 1)
       = Some [(''aa'', countdown_element)]"
proof -
  have stable: "filter (\<lambda>kv. get_stable (snd kv)) (config example_projector)
      = [(''aa'', countdown_element)]"
    by (simp add: example_projector_def get_stable_def py_get_def py_get_default_def
        countdown_element_def slide_element_def)
  have h: "distinct (map fst (config example_projector))
      \<and> named_elements (filter (\<lambda>kv. get_stable (snd kv)) (config example_projector))"
    unfolding stable
    by (simp add: example_projector_def named_elements_def py_get_def py_get_default_def
        countdown_element_def)
  from prune_empty_eq_clear [of named_elements example_uuid4 1 example_projector example_db] h
  show ?thesis by (simp add: stable)
qed

subsection \<open>Updating elements\<close>

lemma map_of_merged:
  "map_of (merged updates cfg) k =
     map_option (\<lambda>el. case map_of updates k of None \<Rightarrow> el | Some partial \<Rightarrow> dict_update el partial)
       (map_of cfg k)"
  unfolding merged_def
  using map_of_map_keyed
    [of "\<lambda>k el. case map_of updates k of None \<Rightarrow> el | Some partial \<Rightarrow> dict_update el partial" cfg k]
  by simp

lemma keys_merged: "map fst (merged updates cfg) = map fst cfg"
  by (simp add: merged_def comp_def)

lemma update_loop_merged:
  "distinct (map fst cfg) \<Longrightarrow> distinct (map fst updates) \<Longrightarrow>
   fst ` set updates \<subseteq> fst ` set cfg \<Longrightarrow>
   update_loop (wrap_updates updates) cfg = Inr (merged updates cfg)"
proof (induction updates arbitrary: cfg)
  case Nil
  then show ?case by (simp add: wrap_updates_def merged_def)
next
  case (Cons a updates)
  obtain k0 u0 where a: "a = (k0, u0)" by (cases a)
  from Cons.prems a have in0: "k0 \<in> fst ` set cfg" by auto
  then obtain el0 where el0: "map_of cfg k0 = Some el0"
    by (metis domD dom_map_of_conv_image_fst)
  let ?cfg1 = "dict_set k0 (dict_update el0 u0) cfg"
  have cfg1: "?cfg1 = map (\<lambda>kv. (fst kv, if fst kv = k0 then dict_update el0 u0 else snd kv)) cfg"
    using Cons.prems(1) in0 by (rule dict_set_map)
  then have keys1: "map fst ?cfg1 = map fst cfg" by (simp add: comp_def)
  from Cons.prems a have d: "distinct (map fst updates)" and notin: "k0 \<notin> fst ` set updates"
    by auto
  from notin have none: "map_of updates k0 = None" by (simp add: map_of_eq_None_iff)
  have "distinct (map fst ?cfg1)" using Cons.prems(1) keys1 by simp
  moreover have "fst ` set updates \<subseteq> fst ` set ?cfg1"
    using Cons.prems(3) keys1 by (metis (no_types, lifting) list.set_map set_subset_Cons image_mono
        subset_trans)
  ultimately have IH: "update_loop (wrap_updates updates) ?cfg1 = Inr (merged updates ?cfg1)"
    using d by (intro Cons.IH)
  have "merged updates ?cfg1 = merged (a # updates) cfg"
  proof -
    have "\<And>kv. kv \<in> set cfg \<Longrightarrow> fst kv = k0 \<Longrightarrow> snd kv = el0"
      using el0 Cons.prems(1) by (metis map_of_is_SomeI option.inject prod.collapse)
    then show ?thesis
      unfolding cfg1 by (auto simp: merged_def a none split: option.splits)
  qed
  with IH el0 show ?case by (simp add: wrap_updates_def a)
qed

lemma check_update_data_wrapped:
  "\<forall>key\<in>fst ` set updates. uuid_hex_ok key \<Longrightarrow> check_update_data (wrap_updates updates) = Inr ()"
  by (induction updates) (auto simp: wrap_updates_def)

lemma check_update_data_iff:
  "check_update_data d =
     (if list_all (\<lambda>kv. uuid_hex_ok (fst kv) \<and> is_dict (snd kv)) d then Inr ()
      else Inl update_error)"
  by (induction d) auto

lemma update_loop_absent:
  "\<exists>key\<in>fst ` set d. key \<notin> fst ` set cfg \<Longrightarrow>
   list_all (\<lambda>kv. is_dict (snd kv)) d \<Longrightarrow>
   update_loop d cfg = Inl (ValidationError (Msg ''Invalid projector element. Wrong UUID.''))"
proof (induction d arbitrary: cfg)
  case Nil
  then show ?case by simp
next
  case (Cons a d)
  obtain k v where a: "a = (k, v)" by (cases a)
  from Cons.prems(2) a obtain partial where v: "v = JDict partial" by (cases v) auto
  show ?case
  proof (cases "map_of cfg k")
    case None
    then show ?thesis by (simp add: a)
  next
    case (Some el)
    then have here: "k \<in> fst ` set cfg" by (metis domI dom_map_of_conv_image_fst)
    let ?cfg1 = "dict_set k (dict_update el partial) cfg"
    from here have "map fst ?cfg1 = map fst cfg" by (rule keys_dict_set_present)
    then have keys: "fst ` set ?cfg1 = fst ` set cfg" by (metis list.set_map)
    from Cons.prems(1) a here have "\<exists>key\<in>fst ` set d. key \<notin> fst ` set cfg" by auto
    with keys have "\<exists>key\<in>fst ` set d. key \<notin> fst ` set ?cfg1" by simp
    moreover from Cons.prems(2) have "list_all (\<lambda>kv. is_dict (snd kv)) d" by simp
    ultimately have "update_loop d ?cfg1
        = Inl (ValidationError (Msg ''Invalid projector element. Wrong UUID.''))"
      by (rule Cons.IH)
    with Some show ?thesis by (simp add: a v)
  qed
qed

text \<open>
  C5. An \<open>update_elements\<close> request whose keys are UUIDs and all exist in the
  mapping of the projector, each with a dict as value: the new mapping has the keys
  of the old one, in the same order; under a key of the request the element is the
  old element with the partial element merged in, where a field named in the partial
  element has the partial element's value and every other field keeps its old value;
  under every other key the element is the old one. When the serializer accepts the
  new mapping, it is returned and saved.
\<close>

theorem update_elements_merges:
  assumes "get_object db pk = Some p"
    and "distinct (map fst (config p))"
    and "distinct (map fst updates)"
    and "\<forall>key\<in>fst ` set updates. uuid_hex_ok key \<and> key \<in> fst ` set (config p)"
  shows "(is_valid (merged updates (config p)) \<longrightarrow>
            update_elements is_valid (JDict (wrap_updates updates)) pk db =
              (Inr (merged updates (config p)),
               save pk (p\<lparr>config := merged updates (config p)\<rparr>) db))
     \<and> map fst (merged updates (config p)) = map fst (config p)
     \<and> (\<forall>key el partial. map_of (config p) key = Some el \<and> map_of updates key = Some partial
            \<and> distinct (map fst partial) \<longrightarrow>
          (\<exists>el'. map_of (merged updates (config p)) key = Some el'
             \<and> (\<forall>f. map_of el' f =
                    (case map_of partial f of None \<Rightarrow> map_of el f | Some v \<Rightarrow> Some v))))
     \<and> (\<forall>key. map_of updates key = None \<longrightarrow>
            map_of (merged updates (config p)) key = map_of (config p) key)"
proof (intro conjI allI impI)
  assume "is_valid (merged updates (config p))"
  moreover from assms(4) have "check_update_data (wrap_updates updates) = Inr ()"
    by (intro check_update_data_wrapped) auto
  moreover from assms(2,3,4)
  have "update_loop (wrap_updates updates) (config p) = Inr (merged updates (config p))"
    by (intro update_loop_merged) auto
  ultimately show "update_elements is_valid (JDict (wrap_updates updates)) pk db =
      (Inr (merged updates (config p)), save pk (p\<lparr>config := merged updates (config p)\<rparr>) db)"
    using assms(1) by (simp add: update_elements_def)
next
  show "map fst (merged updates (config p)) = map fst (config p)" by (rule keys_merged)
next
  fix key el partial
  assume h: "map_of (config p) key = Some el \<and> map_of updates key = Some partial
      \<and> distinct (map fst partial)"
  then have "map_of (merged updates (config p)) key = Some (dict_update el partial)"
    by (simp add: map_of_merged)
  moreover from h have "\<forall>f. map_of (dict_update el partial) f =
      (case map_of partial f of None \<Rightarrow> map_of el f | Some v \<Rightarrow> Some v)"
    by (simp add: map_of_dict_update)
  ultimately show "\<exists>el'. map_of (merged updates (config p)) key = Some el'
      \<and> (\<forall>f. map_of el' f = (case map_of partial f of None \<Rightarrow> map_of el f | Some v \<Rightarrow> Some v))"
    by blast
next
  fix key
  assume "map_of updates key = None"
  then show "map_of (merged updates (config p)) key = map_of (config p) key"
    by (simp add: map_of_merged option.map_ident)
qed

theorem update_elements_merges_witness:
  "update_elements named_elements (JDict [(uuid_a, JDict [(''x'', JInt 2), (''y'', JInt 3)])]) 1 uuid_db
     = (Inr [(uuid_a, [(''name'', JString ''a''), (''x'', JInt 2), (''y'', JInt 3)]),
             (uuid_b, countdown_element)],
        save 1 (uuid_projector\<lparr>config :=
            [(uuid_a, [(''name'', JString ''a''), (''x'', JInt 2), (''y'', JInt 3)]),
             (uuid_b, countdown_element)]\<rparr>) uuid_db)"
proof -
  let ?updates = "[(uuid_a, [(''x'', JInt 2), (''y'', JInt 3)])]"
  have m: "merged ?updates (config uuid_projector)
      = [(uuid_a, [(''name'', JString ''a''), (''x'', JInt 2), (''y'', JInt 3)]),
         (uuid_b, countdown_element)]"
    using uuid_examples_distinct by (simp add: merged_def uuid_projector_def)
  have h1: "get_object uuid_db 1 = Some uuid_projector"
    by (simp add: uuid_db_def get_object_def)
  have h2: "distinct (map fst (config uuid_projector))"
    using uuid_examples_distinct by (simp add: uuid_projector_def)
  have h3: "distinct (map fst ?updates)" by simp
  have h4: "\<forall>key\<in>fst ` set ?updates. uuid_hex_ok key \<and> key \<in> fst ` set (config uuid_projector)"
    using uuid_examples_ok by (simp add: uuid_projector_def)
  have h5: "named_elements (merged ?updates (config uuid_projector))"
    unfolding m
    by (simp add: named_elements_def py_get_def py_get_default_def countdown_element_def)
  from update_elements_merges [OF h1 h2 h3 h4, of named_elements] h5
  show ?thesis by (simp add: m wrap_updates_def)
qed

subsection \<open>Deactivating elements\<close>

lemma check_deactivate_data_iff:
  "check_deactivate_data items =
     (if list_all item_uuid_ok items then Inr () else Inl deactivate_error)"
  by (induction items) auto

lemma del_item_present:
  "del_item item cfg = Inr cfg' \<Longrightarrow>
     item \<in> JString ` fst ` set cfg \<and> fst ` set cfg' \<subseteq> fst ` set cfg"
  by (cases item) (auto simp: dict_del_def split: if_splits)

lemma del_item_error:
  "item_uuid_ok item \<Longrightarrow> del_item item cfg = Inl e \<Longrightarrow> e = ValidationError (Msg ''Invalid UUID.'')"
  by (cases item) (auto split: if_splits)

lemma deactivate_loop_absent:
  "\<exists>item\<in>set items. item \<notin> JString ` fst ` set cfg \<Longrightarrow>
   list_all item_uuid_ok items \<Longrightarrow>
   deactivate_loop items cfg = Inl (ValidationError (Msg ''Invalid UUID.''))"
proof (induction items arbitrary: cfg)
  case Nil
  then show ?case by simp
next
  case (Cons item items)
  show ?case
  proof (cases "del_item item cfg")
    case (Inl e)
    with Cons.prems(2) have "e = ValidationError (Msg ''Invalid UUID.'')"
      by (auto dest: del_item_error)
    with Inl show ?thesis by simp
  next
    case (Inr cfg')
    then have here: "item \<in> JString ` fst ` set cfg" and sub: "fst ` set cfg' \<subseteq> fst ` set cfg"
      by (auto dest: del_item_present)
    from Cons.prems(1) here obtain a where "a \<in> set items" and "a \<notin> JString ` fst ` set cfg"
      by auto
    with sub have "\<exists>item\<in>set items. item \<notin> JString ` fst ` set cfg'" by blast
    moreover from Cons.prems(2) have "list_all item_uuid_ok items" by simp
    ultimately have "deactivate_loop items cfg' = Inl (ValidationError (Msg ''Invalid UUID.''))"
      by (rule Cons.IH)
    with Inr show ?thesis by simp
  qed
qed

text \<open>
  C6. A \<open>deactivate_elements\<close> request on an existing projector whose list contains
  an item that is not a key of the projector's mapping fails with a
  \<open>ValidationError\<close> and returns the database unchanged: nothing is saved and no
  autoupdate is sent, although the loop has already removed the keys in front of the
  missing one from the loaded mapping. When every item is a UUID for the first loop,
  the message is "Invalid UUID."; otherwise it is the message of the first loop.
\<close>

theorem deactivate_unknown_key_aborts:
  assumes "get_object db pk = Some p"
    and "\<exists>item\<in>set items. item \<notin> JString ` fst ` set (config p)"
  shows "deactivate_elements is_valid (JList items) pk db =
     (Inl (if list_all item_uuid_ok items then ValidationError (Msg ''Invalid UUID.'')
           else ValidationError (Msg ''Data must be a list of hex UUIDs.'')), db)"
proof (cases "list_all item_uuid_ok items")
  case True
  with assms(2) have "deactivate_loop items (config p) = Inl (ValidationError (Msg ''Invalid UUID.''))"
    by (rule deactivate_loop_absent)
  with True assms(1) show ?thesis
    by (simp add: deactivate_elements_def check_deactivate_data_iff)
next
  case False
  then show ?thesis
    by (simp add: deactivate_elements_def check_deactivate_data_iff deactivate_error_def)
qed

theorem deactivate_unknown_key_aborts_witness:
  "get_object uuid_db 1 = Some uuid_projector
   \<and> JString uuid_b \<in> JString ` fst ` set (config uuid_projector)
   \<and> JString uuid_c \<notin> JString ` fst ` set (config uuid_projector)
   \<and> deactivate_elements named_elements (JList [JString uuid_b, JString uuid_c]) 1 uuid_db
       = (Inl (ValidationError (Msg ''Invalid UUID.'')), uuid_db)"
proof -
  have h1: "get_object uuid_db 1 = Some uuid_projector"
    by (simp add: uuid_db_def get_object_def)
  have h2: "JString uuid_b \<in> JString ` fst ` set (config uuid_projector)"
    and h3: "JString uuid_c \<notin> JString ` fst ` set (config uuid_projector)"
    using uuid_examples_distinct by (auto simp: uuid_projector_def)
  from h3 have h4: "\<exists>item\<in>set [JString uuid_b, JString uuid_c].
      item \<notin> JString ` fst ` set (config uuid_projector)"
    by simp
  from deactivate_unknown_key_aborts [OF h1 h4, of named_elements] uuid_examples_ok h1 h2 h3
  show ?thesis by simp
qed

subsection \<open>Destroying a projector\<close>

lemma reassign_defaults_lookup:
  "distinct (map fst rows) \<Longrightarrow>
   map_of (reassign_defaults pk rows table) i =
     (case map_of rows i of
        None \<Rightarrow> map_of table i
      | Some q \<Rightarrow> if q = pk then Some 1 else map_of table i)"
proof (induction rows arbitrary: table)
  case Nil
  then show ?case by simp
next
  case (Cons row rows)
  obtain i0 q0 where row: "row = (i0, q0)" by (cases row)
  from Cons.prems row have "i0 \<notin> fst ` set rows" and d: "distinct (map fst rows)" by auto
  then have none: "map_of rows i0 = None" by (simp add: map_of_eq_None_iff)
  show ?case
    using Cons.IH [OF d] none
    by (auto simp: row map_of_dict_set split: option.splits)
qed

lemma reassign_defaults_keys:
  "fst ` set rows \<subseteq> fst ` set table \<Longrightarrow>
   map fst (reassign_defaults pk rows table) = map fst table"
proof (induction rows arbitrary: table)
  case Nil
  then show ?case by simp
next
  case (Cons row rows)
  obtain i0 q0 where row: "row = (i0, q0)" by (cases row)
  from Cons.prems row have in0: "i0 \<in> fst ` set table" by auto
  let ?t = "if q0 = pk then dict_set i0 1 table else table"
  from in0 have keys: "map fst ?t = map fst table" by (simp add: keys_dict_set_present)
  then have "fst ` set ?t = fst ` set table" by (metis list.set_map)
  with Cons.prems have "fst ` set rows \<subseteq> fst ` set ?t" by auto
  then have "map fst (reassign_defaults pk rows ?t) = map fst ?t" by (rule Cons.IH)
  with keys show ?case by (simp add: row)
qed

text \<open>
  C7. After \<open>destroy\<close> of an existing projector, every \<open>ProjectionDefault\<close> that
  referenced the destroyed projector references the projector with id 1, every
  other \<open>ProjectionDefault\<close> references what it referenced before (the rows and their
  order are the same), and \<open>projector_broadcast\<close> is 0 if it was the destroyed
  projector's id and unchanged otherwise. The primary keys of the
  \<open>ProjectionDefault\<close> rows are distinct.
\<close>

theorem destroy_reassigns_defaults:
  assumes "get_object db pk = Some p"
    and "distinct (map fst (projectiondefaults db))"
  shows "fst (destroy pk db) = Inr ()
     \<and> map fst (projectiondefaults (snd (destroy pk db))) = map fst (projectiondefaults db)
     \<and> (\<forall>i. map_of (projectiondefaults (snd (destroy pk db))) i =
            map_option (\<lambda>projector_id. if projector_id = pk then 1 else projector_id)
              (map_of (projectiondefaults db) i))
     \<and> projector_broadcast (snd (destroy pk db)) =
         (if projector_broadcast db = pk then 0 else projector_broadcast db)"
  using assms
  by (auto simp: destroy_def Let_def super_destroy_def reassign_defaults_lookup
      reassign_defaults_keys split: option.splits)

theorem destroy_reassigns_defaults_witness:
  "get_object example_db 2 \<noteq> None
   \<and> fst (destroy 2 example_db) = Inr ()
   \<and> projectiondefaults (snd (destroy 2 example_db)) = [(1, 1), (2, 1), (3, 1)]
   \<and> projector_broadcast example_db = 2
   \<and> projector_broadcast (snd (destroy 2 example_db)) = 0"
proof -
  have h1: "get_object example_db 2 = Some (example_projector\<lparr>scroll := 0\<rparr>)"
    by (simp add: example_db_def get_object_def)
  have h2: "distinct (map fst (projectiondefaults example_db))"
    by (simp add: example_db_def)
  have pd: "projectiondefaults (snd (destroy 2 example_db)) = [(1, 1), (2, 1), (3, 1)]"
    by (simp add: destroy_def Let_def super_destroy_def example_db_def get_object_def)
  have b: "projector_broadcast example_db = 2"
    by (simp add: example_db_def)
  from destroy_reassigns_defaults [OF h1 h2] h1 pd b
  show ?thesis by simp
qed

text \<open>
  C10. When the projector with id 1 itself is destroyed, every \<open>ProjectionDefault\<close>
  references afterwards what it referenced before: one that referenced projector 1
  still references id 1, the projector being destroyed. For any destroyed projector,
  the only value the loop ever assigns is 1: a \<open>ProjectionDefault\<close> references its
  old projector or id 1, never another surviving projector.
\<close>

theorem destroy_default_projector:
  assumes "get_object db 1 = Some p"
    and "distinct (map fst (projectiondefaults db))"
  shows "(\<forall>i. map_of (projectiondefaults (snd (destroy 1 db))) i = map_of (projectiondefaults db) i)
     \<and> (\<forall>i. map_of (projectiondefaults db) i = Some 1 \<longrightarrow>
            map_of (projectiondefaults (snd (destroy 1 db))) i = Some 1)
     \<and> (\<forall>pk i q. map_of (reassign_defaults pk (projectiondefaults db) (projectiondefaults db)) i = Some q
            \<longrightarrow> q = 1 \<or> map_of (projectiondefaults db) i = Some q)"
  using assms
  by (auto simp: destroy_def Let_def super_destroy_def reassign_defaults_lookup
      split: option.splits if_splits)

theorem destroy_default_projector_witness:
  "get_object example_db 1 \<noteq> None
   \<and> map_of (projectiondefaults example_db) 1 = Some 1
   \<and> map_of (projectiondefaults (snd (destroy 1 example_db))) 1 = Some 1"
proof -
  have h1: "get_object example_db 1 = Some example_projector"
    by (simp add: example_db_def get_object_def)
  have h2: "distinct (map fst (projectiondefaults example_db))"
    by (simp add: example_db_def)
  have h3: "map_of (projectiondefaults example_db) 1 = Some 1"
    by (simp add: example_db_def)
  from destroy_default_projector [OF h1 h2] h1 h3
  show ?thesis by simp
qed

subsection \<open>Keys accepted by the UUID check\<close>

lemma py_remove_absent: "c \<notin> set s \<Longrightarrow> py_remove (c # pat) s = s"
  by (induction s) auto

lemma py_remove_single: "py_remove [c] s = filter (\<lambda>x. x \<noteq> c) s"
  by (induction s) auto

lemma dropWhile_none: "\<forall>x\<in>set s. \<not> P x \<Longrightarrow> dropWhile P s = s"
  by (cases s) auto

lemma py_strip_none: "set s \<inter> set chars = {} \<Longrightarrow> py_strip chars s = s"
  by (simp add: py_strip_def dropWhile_none disjoint_iff)

lemma py_strip_braced:
  assumes "set s \<inter> set ''{}'' = {}"
  shows "py_strip ''{}'' (''{'' @ s @ ''}'') = s"
proof -
  from assms have none: "\<forall>x\<in>set s. \<not> x \<in> set ''{}''" by auto
  then have none_rev: "\<forall>x\<in>set (rev s). \<not> x \<in> set ''{}''" by simp
  have "dropWhile (\<lambda>c. c \<in> set ''{}'') (''{'' @ s @ ''}'')
      = dropWhile (\<lambda>c. c \<in> set ''{}'') (s @ ''}'')"
    by simp
  also have "\<dots> = (if s = [] then [] else s @ ''}'')"
    using none by (cases s) auto
  finally have front: "dropWhile (\<lambda>c. c \<in> set ''{}'') (''{'' @ s @ ''}'')
      = (if s = [] then [] else s @ ''}'')" .
  show ?thesis
    unfolding py_strip_def front
    using dropWhile_none [OF none_rev] by simp
qed

lemma is_hex_chars:
  "is_hex c \<Longrightarrow> c \<noteq> CHR ''u'' \<and> c \<noteq> CHR ''-'' \<and> c \<noteq> CHR ''{'' \<and> c \<noteq> CHR ''}''
     \<and> c \<noteq> CHR ''x'' \<and> c \<noteq> CHR ''X'' \<and> c \<noteq> CHR ''+'' \<and> c \<noteq> CHR ''_'' \<and> \<not> is_space c"
  by (auto simp: is_hex_def is_space_def)

lemma digits_rest_hex: "list_all is_hex s \<Longrightarrow> digits_rest s"
  by (induction s) auto

lemma int16_ok_hex:
  assumes "list_all is_hex s" and "s \<noteq> []"
  shows "int16_ok s"
proof -
  from assms obtain c cs where s: "s = c # cs" by (cases s) auto
  with assms have c: "is_hex c" and cs: "list_all is_hex cs" by auto
  from c have sp: "dropWhile is_space s = s" by (simp add: s is_hex_chars)
  from c have sg: "skip_sign s = s" by (simp add: s skip_sign_def is_hex_chars)
  have pf: "skip_prefix s = s"
  proof (cases cs)
    case Nil
    then show ?thesis by (simp add: s)
  next
    case (Cons c1 r)
    with cs have "is_hex c1" by simp
    then show ?thesis by (simp add: s Cons is_hex_chars)
  qed
  from c cs show ?thesis
    by (simp add: int16_ok_def sp sg pf) (simp add: s digits_rest_hex)
qed

lemma take_drop_join: "take n (drop m xs) @ drop (m + n) xs = drop m xs"
  by (metis append_take_drop_id drop_drop add.commute)

lemma filter_hyphenated:
  assumes "CHR ''-'' \<notin> set h"
  shows "filter (\<lambda>x. x \<noteq> CHR ''-'') (hyphenated h) = h"
proof -
  have keep: "filter (\<lambda>x. x \<noteq> CHR ''-'') s = s" if "set s \<subseteq> set h" for s
    using that assms by (induction s) auto
  have "filter (\<lambda>x. x \<noteq> CHR ''-'') (hyphenated h)
      = take 8 h @ take 4 (drop 8 h) @ take 4 (drop 12 h) @ take 4 (drop 16 h) @ drop 20 h"
    unfolding hyphenated_def
    by (simp add: keep set_take_subset set_drop_subset
        subset_trans [OF set_take_subset set_drop_subset])
  also have "\<dots> = take 8 h @ take 4 (drop 8 h) @ take 4 (drop 12 h) @ drop 16 h"
    using take_drop_join [of 4 16 h] by simp
  also have "\<dots> = take 8 h @ take 4 (drop 8 h) @ drop 12 h"
    using take_drop_join [of 4 12 h] by simp
  also have "\<dots> = take 8 h @ drop 8 h"
    using take_drop_join [of 4 8 h] by simp
  finally show ?thesis by simp
qed

lemma set_hyphenated: "set (hyphenated h) \<subseteq> insert (CHR ''-'') (set h)"
proof -
  have "set (take n (drop m h)) \<subseteq> set h" for n m
    by (rule subset_trans [OF set_take_subset set_drop_subset])
  moreover have "set (take 8 h) \<subseteq> set h" "set (drop 20 h) \<subseteq> set h"
    by (rule set_take_subset, rule set_drop_subset)
  ultimately show ?thesis unfolding hyphenated_def by auto
qed

lemma uuid_hex_ok_forms:
  assumes "length h = 32" and "list_all is_hex h"
  shows "uuid_hex_ok h" and "uuid_hex_ok (hyphenated h)"
    and "uuid_hex_ok (''{'' @ hyphenated h @ ''}'')"
    and "uuid_hex_ok (''urn:uuid:'' @ hyphenated h)"
proof -
  from assms(2) have hex: "\<And>c. c \<in> set h \<Longrightarrow> is_hex c" by (simp add: list_all_iff)
  from assms(1) have ne: "h \<noteq> []" by auto
  have no_u: "CHR ''u'' \<notin> set h" and no_hy: "CHR ''-'' \<notin> set h"
    and no_br: "set h \<inter> set ''{}'' = {}"
    using hex is_hex_chars by auto
  have ok: "int16_ok h" using assms(2) ne by (rule int16_ok_hex)
  let ?b = "hyphenated h"
  have b_u: "CHR ''u'' \<notin> set ?b" using set_hyphenated [of h] no_u by auto
  have b_br: "set ?b \<inter> set ''{}'' = {}" using set_hyphenated [of h] no_br by auto
  have b_h: "py_remove ''-'' ?b = h" using no_hy by (simp add: py_remove_single filter_hyphenated)
  have h_h: "py_remove ''-'' h = h" using no_hy by (auto simp: py_remove_single filter_id_conv)
  show "uuid_hex_ok h"
    using no_u no_br assms(1) ok
    by (simp add: uuid_hex_ok_def Let_def py_remove_absent py_strip_none h_h)
  show "uuid_hex_ok ?b"
    using b_u b_br assms(1) ok
    by (simp add: uuid_hex_ok_def Let_def py_remove_absent py_strip_none b_h)
  have brace_u: "CHR ''u'' \<notin> set (''{'' @ ?b @ ''}'')" using b_u by simp
  show "uuid_hex_ok (''{'' @ ?b @ ''}'')"
    unfolding uuid_hex_ok_def Let_def
    using assms(1) ok
    by (simp only: py_remove_absent [OF brace_u] py_strip_braced [OF b_br] b_h)
  have urn: "py_remove ''urn:'' (''urn:uuid:'' @ ?b) = ''uuid:'' @ ?b"
    using py_remove_absent [OF b_u, of "''rn:''"] by simp
  have uuid: "py_remove ''uuid:'' (''uuid:'' @ ?b) = ?b"
    using py_remove_absent [OF b_u, of "''uid:''"] by simp
  show "uuid_hex_ok (''urn:uuid:'' @ ?b)"
    unfolding uuid_hex_ok_def Let_def urn uuid
    using assms(1) ok by (simp add: py_strip_none [OF b_br] b_h)
qed

text \<open>
  C9. The check \<open>uuid.UUID(hex=str(key))\<close> of \<open>update_elements\<close> and
  \<open>deactivate_elements\<close> accepts, for every string \<open>h\<close> of 32 hexadecimal digits, the
  bare string, its hyphenated form, the hyphenated form in braces and the
  hyphenated form behind \<open>urn:uuid:\<close>. A request whose keys all pass this check,
  one of them not being literally a key of the projector's mapping, fails with
  "Invalid projector element. Wrong UUID." in \<open>update_elements\<close> and with
  "Invalid UUID." in \<open>deactivate_elements\<close>, not with the error for malformed
  data, and nothing is saved.
\<close>

theorem uuid_forms_pass_syntax_check:
  assumes "length h = 32" and "list_all is_hex h" and "get_object db pk = Some p"
  shows "uuid_hex_ok h \<and> uuid_hex_ok (hyphenated h)
     \<and> uuid_hex_ok (''{'' @ hyphenated h @ ''}'')
     \<and> uuid_hex_ok (''urn:uuid:'' @ hyphenated h)
     \<and> (\<forall>d. list_all (\<lambda>kv. uuid_hex_ok (fst kv) \<and> is_dict (snd kv)) d
              \<and> (\<exists>key\<in>fst ` set d. key \<notin> fst ` set (config p)) \<longrightarrow>
            update_elements is_valid (JDict d) pk db =
              (Inl (ValidationError (Msg ''Invalid projector element. Wrong UUID.'')), db))
     \<and> (\<forall>items. list_all item_uuid_ok items
              \<and> (\<exists>item\<in>set items. item \<notin> JString ` fst ` set (config p)) \<longrightarrow>
            deactivate_elements is_valid (JList items) pk db =
              (Inl (ValidationError (Msg ''Invalid UUID.'')), db))"
proof (intro conjI allI impI)
  show "uuid_hex_ok h" "uuid_hex_ok (hyphenated h)" "uuid_hex_ok (''{'' @ hyphenated h @ ''}'')"
    "uuid_hex_ok (''urn:uuid:'' @ hyphenated h)"
    using assms(1,2) by (rule uuid_hex_ok_forms)+
next
  fix d
  assume h: "list_all (\<lambda>kv. uuid_hex_ok (fst kv) \<and> is_dict (snd kv)) d
      \<and> (\<exists>key\<in>fst ` set d. key \<notin> fst ` set (config p))"
  then have "list_all (\<lambda>kv. is_dict (snd kv)) d" by (simp add: list_all_iff)
  with h have "update_loop d (config p)
      = Inl (ValidationError (Msg ''Invalid projector element. Wrong UUID.''))"
    by (intro update_loop_absent) auto
  with h assms(3) show "update_elements is_valid (JDict d) pk db =
      (Inl (ValidationError (Msg ''Invalid projector element. Wrong UUID.'')), db)"
    by (simp add: update_elements_def check_update_data_iff)
next
  fix items
  assume h: "list_all item_uuid_ok items
      \<and> (\<exists>item\<in>set items. item \<notin> JString ` fst ` set (config p))"
  then have "deactivate_loop items (config p) = Inl (ValidationError (Msg ''Invalid UUID.''))"
    by (intro deactivate_loop_absent) auto
  with h assms(3) show "deactivate_elements is_valid (JList items) pk db =
      (Inl (ValidationError (Msg ''Invalid UUID.'')), db)"
    by (simp add: deactivate_elements_def check_deactivate_data_iff)
qed

theorem uuid_forms_pass_syntax_check_witness:
  "hyphenated uuid_a = ''191c0878-cdc0-4abf-bd64-f3177a21891a''
   \<and> uuid_a \<in> fst ` set (config uuid_projector)
   \<and> uuid_hex_ok ''191c0878-cdc0-4abf-bd64-f3177a21891a''
   \<and> uuid_hex_ok ''{191c0878-cdc0-4abf-bd64-f3177a21891a}''
   \<and> uuid_hex_ok ''urn:uuid:191c0878-cdc0-4abf-bd64-f3177a21891a''
   \<and> update_elements named_elements
         (JDict [(''191c0878-cdc0-4abf-bd64-f3177a21891a'', JDict [(''x'', JInt 2)])]) 1 uuid_db
       = (Inl (ValidationError (Msg ''Invalid projector element. Wrong UUID.'')), uuid_db)
   \<and> deactivate_elements named_elements
         (JList [JString ''{191c0878-cdc0-4abf-bd64-f3177a21891a}'']) 1 uuid_db
       = (Inl (ValidationError (Msg ''Invalid UUID.'')), uuid_db)"
proof -
  have hy: "hyphenated uuid_a = ''191c0878-cdc0-4abf-bd64-f3177a21891a''"
    by (simp add: hyphenated_def uuid_a_def)
  have h1: "length uuid_a = 32" and h2: "list_all is_hex uuid_a"
    by (simp_all add: uuid_a_def is_hex_def)
  have h3: "get_object uuid_db 1 = Some uuid_projector"
    by (simp add: uuid_db_def get_object_def)
  have keys: "fst ` set (config uuid_projector) = {uuid_a, uuid_b}"
    by (auto simp: uuid_projector_def)
  note r = uuid_forms_pass_syntax_check [OF h1 h2 h3, of named_elements, unfolded hy]
  have forms: "uuid_hex_ok ''191c0878-cdc0-4abf-bd64-f3177a21891a''"
    "uuid_hex_ok ''{191c0878-cdc0-4abf-bd64-f3177a21891a}''"
    "uuid_hex_ok ''urn:uuid:191c0878-cdc0-4abf-bd64-f3177a21891a''"
    using r by simp_all
  have absent1: "''191c0878-cdc0-4abf-bd64-f3177a21891a'' \<notin> fst ` set (config uuid_projector)"
    and absent2: "''{191c0878-cdc0-4abf-bd64-f3177a21891a}'' \<notin> fst ` set (config uuid_projector)"
    unfolding keys by (simp_all add: uuid_a_def uuid_b_def)
  from r have upd: "list_all (\<lambda>kv. uuid_hex_ok (fst kv) \<and> is_dict (snd kv)) d
        \<and> (\<exists>key\<in>fst ` set d. key \<notin> fst ` set (config uuid_projector)) \<Longrightarrow>
      update_elements named_elements (JDict d) 1 uuid_db =
        (Inl (ValidationError (Msg ''Invalid projector element. Wrong UUID.'')), uuid_db)" for d
    by blast
  from r have deact: "list_all item_uuid_ok items
        \<and> (\<exists>item\<in>set items. item \<notin> JString ` fst ` set (config uuid_projector)) \<Longrightarrow>
      deactivate_elements named_elements (JList items) 1 uuid_db =
        (Inl (ValidationError (Msg ''Invalid UUID.'')), uuid_db)" for items
    by blast
  have u: "update_elements named_elements
         (JDict [(''191c0878-cdc0-4abf-bd64-f3177a21891a'', JDict [(''x'', JInt 2)])]) 1 uuid_db
       = (Inl (ValidationError (Msg ''Invalid projector element. Wrong UUID.'')), uuid_db)"
    by (rule upd) (use forms absent1 in simp)
  have dd: "deactivate_elements named_elements
         (JList [JString ''{191c0878-cdc0-4abf-bd64-f3177a21891a}'']) 1 uuid_db
       = (Inl (ValidationError (Msg ''Invalid UUID.'')), uuid_db)"
    by (rule deact) (use forms absent2 in auto)
  from hy forms u dd keys show ?thesis by simp
qed

end
